theory Spec2Isabelle
  imports Main
begin

section \<open>The \<open>now scale\<close> command (src/providers/sh/commands/scale.js)\<close>

text \<open>
  The file holds one function, \<open>main\<close>: it reads the parsed command line, resolves the
  targets and the bounds through three helpers, fetches the deployment, submits the
  scale rules and waits for them to be realised. The helpers and the network calls are
  imported from files outside the source tree, so the model takes them as the fields of
  a record of collaborators and \<open>main\<close> is a function of that record. What \<open>main\<close>
  prints and which calls it makes, in order, are the events of a run; what its promise
  settles to is the outcome.
\<close>

subsection \<open>Data\<close>

text \<open>
  Modelled from the spec: the type declarations of \<open>../util/types\<close> are not in the source
  tree. A bound is a non-negative integer or the sentinel \<open>auto\<close>; a scale range is the
  object \<open>{ min, max }\<close>; scale rules map a target to its range. A JavaScript object
  lists its own keys in a fixed order (\<open>put\<close> below), so the rules are an association list
  in that order.
\<close>

datatype bound = Num nat | Auto

type_synonym scale_range = "bound \<times> bound"

type_synonym scale_spec = "(string \<times> scale_range) list"

text \<open>The fields of a deployment that \<open>main\<close> reads.\<close>

record deployment =
  uid :: string
  url :: string
  dtype :: string
  state :: string
  scale :: scale_spec

text \<open>The options \<open>getArgs\<close> returns: \<open>argv._\<close> and the flags \<open>main\<close> reads.\<close>

record cli_scale_options =
  positional :: "string list"
  help_flag :: bool
  debug_flag :: bool
  no_verify :: bool
  verify_timeout :: "nat option"

record credential =
  provider :: string
  token :: string

record sh_config =
  currentTeam :: "string option"

record cli_context =
  argv :: "string list"
  apiUrl :: string
  credentials :: "credential list"
  sh :: sh_config

text \<open>\<open>new Now({ apiUrl, token, debug, currentTeam })\<close>\<close>

datatype now = Now string string bool "string option"

subsection \<open>Errors as values\<close>

text \<open>
  Each helper returns either a value or an instance of one of the classes of
  \<open>Errors\<close>; \<open>main\<close> tells them apart with \<open>instanceof\<close>. The classes each helper can
  return are the ones \<open>main\<close> tests its result for. \<open>getMaxFromArgs\<close> can return the
  error of the min parser (line 125).
\<close>

datatype dcs_error = InvalidAllForScale | InvalidRegionOrDCForScale string

datatype min_error = InvalidMinForScale string

datatype max_error =
    OfMin min_error
  | InvalidArgsForMinMaxScale bound
  | InvalidMaxForScale string

datatype fetch_error = DeploymentPermissionDenied string string | DeploymentNotFound

datatype patch_error =
    ForbiddenScaleMinInstances nat
  | ForbiddenScaleMaxInstances nat
  | InvalidScaleMinMaxRelation
  | NotSupportedMinScaleSlots

datatype verify_error = VerifyScaleTimeout nat

text \<open>
  An awaited call either resolves to a value or rejects; \<open>main\<close> has no \<open>try\<close> around
  its awaits, so a rejection rejects the promise of \<open>main\<close> itself.
\<close>

datatype 'a promise = Rejects | Resolves 'a

datatype outcome = Exit nat | Rejected

subsection \<open>Collaborators\<close>

record collaborators =
  getArgs :: "string list \<Rightarrow> unit + cli_scale_options"
  getContextName :: "sh_config \<Rightarrow> string"
  getDCsFromArgs :: "string list \<Rightarrow> dcs_error + string list"
  getMinFromArgs :: "string list \<Rightarrow> min_error + bound"
  getMaxFromArgs :: "string list \<Rightarrow> max_error + bound"
  getDeploymentByIdOrHost :: "now \<Rightarrow> string \<Rightarrow> string \<Rightarrow> (fetch_error + deployment) promise"
  patchDeploymentScale :: "now \<Rightarrow> string \<Rightarrow> scale_spec \<Rightarrow> string \<Rightarrow> (patch_error + scale_spec) promise"
  getDeploymentByIdOrThrow :: "now \<Rightarrow> string \<Rightarrow> string \<Rightarrow> deployment promise"
  waitVerifyDeploymentScale :: "now \<Rightarrow> string \<Rightarrow> scale_spec \<Rightarrow> (verify_error + unit) promise"

subsection \<open>Events\<close>

text \<open>What \<open>output.error\<close> is called with, by the line of \<open>main\<close> that prints it.\<close>

datatype message =
    DeprecatedLs
  | ExpectsArguments
  | AllWithOthers
  | NotARegionOrDC string
  | BadMin string
  | BadArgCount bound
  | BadMax string
  | NoPermission string string
  | NotFound string string
  | StaticDeployment
  | ErrorStateDeployment
  | MinPlanLimit nat
  | MaxPlanLimit nat
  | MinAboveMax
  | NoMinSlots
  | VerificationTimedOut nat

datatype event =
    HandledError
  | HelpOut
  | ErrorOut message
  | LogFetched string
  | DebugPresets scale_spec
  | LogReadMore
  | Saved "string list" bound bound
  | Verified
  | Closed
  | Fetch string
  | Patch string scale_spec string
  | Refetch string
  | WaitVerify string scale_spec

text \<open>The four calls that go to the network.\<close>

fun is_network :: "event \<Rightarrow> bool" where
  "is_network (Fetch _) = True"
| "is_network (Patch _ _ _) = True"
| "is_network (Refetch _) = True"
| "is_network (WaitVerify _ _) = True"
| "is_network _ = False"

fun is_patch :: "event \<Rightarrow> bool" where
  "is_patch (Patch _ _ _) = True"
| "is_patch _ = False"

fun is_wait_verify :: "event \<Rightarrow> bool" where
  "is_wait_verify (WaitVerify _ _) = True"
| "is_wait_verify _ = False"

type_synonym run = "outcome \<times> event list"

definition emit :: "event list \<Rightarrow> run \<Rightarrow> run" where
  "emit es r = (fst r, es @ snd r)"

text \<open>\<open>output.error(m); now.close(); return 1\<close>\<close>

definition fail :: "message \<Rightarrow> run" where
  "fail m = (Exit 1, [ErrorOut m, Closed])"

text \<open>\<open>xs[i]\<close>, which is \<open>undefined\<close> out of range.\<close>

definition at :: "'a list \<Rightarrow> nat \<Rightarrow> 'a option" where
  "at xs i = (if i < length xs then Some (xs ! i) else None)"

subsection \<open>\<open>main\<close>, from its last stage to its first\<close>

text \<open>
  Lines 194 to 213. The poller is handed the uid of the deployment fetched first and the
  \<open>scale\<close> field of the deployment fetched again.
\<close>

definition main_verify :: "collaborators \<Rightarrow> now \<Rightarrow> string \<Rightarrow> cli_scale_options \<Rightarrow> deployment \<Rightarrow> run" where
  "main_verify w client contextName opts deployment =
    (if no_verify opts then (Exit 0, [Closed])
     else emit [Refetch (uid deployment)]
       (case getDeploymentByIdOrThrow w client contextName (uid deployment) of
          Rejects \<Rightarrow> (Rejected, [])
        | Resolves updatedDeployment \<Rightarrow>
            if dtype updatedDeployment = ''NPM'' \<or> dtype updatedDeployment = ''DOCKER'' then
              emit [WaitVerify (uid deployment) (scale updatedDeployment)]
                (case waitVerifyDeploymentScale w client (uid deployment) (scale updatedDeployment) of
                   Rejects \<Rightarrow> (Rejected, [])
                 | Resolves (Inl (VerifyScaleTimeout timeout)) \<Rightarrow>
                     (Exit 1, [ErrorOut (VerificationTimedOut timeout), Closed])
                 | Resolves (Inr _) \<Rightarrow> (Exit 0, [Verified, Closed]))
            else (Exit 0, [Closed])))"

text \<open>Decimal digits, and the value of a string of them; any other character gives none.\<close>

definition is_digit :: "char \<Rightarrow> bool" where
  "is_digit c = (48 \<le> (of_char c :: nat) \<and> (of_char c :: nat) \<le> 57)"

fun digits_value :: "nat \<Rightarrow> string \<Rightarrow> nat option" where
  "digits_value acc [] = Some acc"
| "digits_value acc (c # cs) =
     (if is_digit c then digits_value (10 * acc + (of_char c - 48)) cs else None)"

text \<open>
  The keys of a JavaScript object that are array indices: the canonical decimal form (no
  leading zero) of an integer below \<open>2^32 - 1\<close>. An object lists these keys first, in
  ascending order, and its other string keys after them, in the order of their creation.
\<close>

definition array_index :: "string \<Rightarrow> nat option" where
  "array_index k =
    (if k = [] \<or> (hd k = CHR ''0'' \<and> k \<noteq> ''0'') then None
     else (case digits_value 0 k of
             Some i \<Rightarrow> if i < 4294967295 then Some i else None
           | None \<Rightarrow> None))"

text \<open>A new index key goes before the first key that is no smaller index.\<close>

fun insert_index :: "nat \<Rightarrow> string \<Rightarrow> 'v \<Rightarrow> (string \<times> 'v) list \<Rightarrow> (string \<times> 'v) list" where
  "insert_index i k v [] = [(k, v)]"
| "insert_index i k v (p # ps) =
     (case array_index (fst p) of
        Some j \<Rightarrow> if j < i then p # insert_index i k v ps else (k, v) # p # ps
      | None \<Rightarrow> (k, v) # p # ps)"

text \<open>
  \<open>{...obj, [k]: v}\<close>: the copy keeps the keys of \<open>obj\<close> in their order; a key that is
  there keeps its place and takes the new value, a new key is created.
\<close>

definition put :: "string \<Rightarrow> 'v \<Rightarrow> (string \<times> 'v) list \<Rightarrow> (string \<times> 'v) list" where
  "put k v obj =
    (if k \<in> fst ` set obj then map (\<lambda>p. if fst p = k then (k, v) else p) obj
     else (case array_index k of
             Some i \<Rightarrow> insert_index i k v obj
           | None \<Rightarrow> obj @ [(k, v)]))"

text \<open>Line 165: \<open>dcs.reduce((result, dc) => ({...result, [dc]: { min, max }}), {})\<close>.\<close>

definition scaleArgs :: "string list \<Rightarrow> bound \<Rightarrow> bound \<Rightarrow> scale_spec" where
  "scaleArgs dcs mn mx = fold (\<lambda>dc result. put dc (mn, mx) result) dcs []"

text \<open>Lines 165 to 192.\<close>

definition main_apply ::
    "collaborators \<Rightarrow> now \<Rightarrow> string \<Rightarrow> cli_scale_options \<Rightarrow> string list \<Rightarrow> bound \<Rightarrow> bound \<Rightarrow> deployment \<Rightarrow> run" where
  "main_apply w client contextName opts dcs mn mx deployment =
    emit [DebugPresets (scaleArgs dcs mn mx),
          Patch (uid deployment) (scaleArgs dcs mn mx) (url deployment)]
      (case patchDeploymentScale w client (uid deployment) (scaleArgs dcs mn mx) (url deployment) of
         Rejects \<Rightarrow> (Rejected, [])
       | Resolves (Inl (ForbiddenScaleMinInstances limit)) \<Rightarrow> fail (MinPlanLimit limit)
       | Resolves (Inl (ForbiddenScaleMaxInstances limit)) \<Rightarrow> fail (MaxPlanLimit limit)
       | Resolves (Inl InvalidScaleMinMaxRelation) \<Rightarrow> fail MinAboveMax
       | Resolves (Inl NotSupportedMinScaleSlots) \<Rightarrow>
           (Exit 1, [ErrorOut NoMinSlots, LogReadMore, Closed])
       | Resolves (Inr _) \<Rightarrow>
           emit [Saved dcs mn mx] (main_verify w client contextName opts deployment))"

text \<open>Lines 139 to 163. Here \<open>argv._\<close> has at least three entries, so \<open>argv._[1]\<close> is a string.\<close>

definition main_fetch ::
    "collaborators \<Rightarrow> now \<Rightarrow> string \<Rightarrow> cli_scale_options \<Rightarrow> string list \<Rightarrow> bound \<Rightarrow> bound \<Rightarrow> run" where
  "main_fetch w client contextName opts dcs mn mx =
    emit [Fetch (positional opts ! 1)]
      (case getDeploymentByIdOrHost w client contextName (positional opts ! 1) of
         Rejects \<Rightarrow> (Rejected, [])
       | Resolves (Inl (DeploymentPermissionDenied ident context_name)) \<Rightarrow>
           fail (NoPermission ident context_name)
       | Resolves (Inl DeploymentNotFound) \<Rightarrow>
           fail (NotFound (positional opts ! 1) contextName)
       | Resolves (Inr deployment) \<Rightarrow>
           emit [LogFetched (url deployment)]
             (if dtype deployment = ''STATIC'' then fail StaticDeployment
              else if state deployment = ''ERROR'' then fail ErrorStateDeployment
              else main_apply w client contextName opts dcs mn mx deployment))"

text \<open>Lines 106 to 137.\<close>

definition main_parse :: "collaborators \<Rightarrow> now \<Rightarrow> string \<Rightarrow> cli_scale_options \<Rightarrow> run" where
  "main_parse w client contextName opts =
    (case getDCsFromArgs w (positional opts) of
       Inl InvalidAllForScale \<Rightarrow> fail AllWithOthers
     | Inl (InvalidRegionOrDCForScale regionOrDC) \<Rightarrow> fail (NotARegionOrDC regionOrDC)
     | Inr dcs \<Rightarrow>
         (case getMinFromArgs w (positional opts) of
            Inl (InvalidMinForScale v) \<Rightarrow> fail (BadMin v)
          | Inr mn \<Rightarrow>
              (case getMaxFromArgs w (positional opts) of
                 Inl (OfMin (InvalidMinForScale v)) \<Rightarrow> fail (BadMin v)
               | Inl (InvalidArgsForMinMaxScale m) \<Rightarrow> fail (BadArgCount m)
               | Inl (InvalidMaxForScale v) \<Rightarrow> fail (BadMax v)
               | Inr mx \<Rightarrow> main_fetch w client contextName opts dcs mn mx)))"

text \<open>
  Lines 91 to 104: the command proper starts here, with the old subcommand refused first
  and the number of arguments checked second.
\<close>

definition main_core :: "collaborators \<Rightarrow> now \<Rightarrow> string \<Rightarrow> cli_scale_options \<Rightarrow> run" where
  "main_core w client contextName opts =
    (if at (positional opts) 1 = Some ''ls'' then fail DeprecatedLs
     else if length (positional opts) < 3 \<or> 5 < length (positional opts) then
       (Exit 1, [ErrorOut ExpectsArguments, HelpOut, Closed])
     else main_parse w client contextName opts)"

text \<open>
  Lines 61 to 89: the flags are parsed, \<open>--help\<close> is answered, and the client is built from
  the token of the \<open>sh\<close> credentials. Destructuring the result of \<open>find\<close> throws when no
  credential has that provider.
\<close>

definition main :: "collaborators \<Rightarrow> cli_context \<Rightarrow> run" where
  "main w ctx =
    (case getArgs w (drop 2 (argv ctx)) of
       Inl _ \<Rightarrow> (Exit 1, [HandledError])
     | Inr opts \<Rightarrow>
         if help_flag opts then (Exit 2, [HelpOut])
         else
           (case find (\<lambda>item. provider item = ''sh'') (credentials ctx) of
              None \<Rightarrow> (Rejected, [])
            | Some cred \<Rightarrow>
                main_core w
                  (Now (apiUrl ctx) (token cred) (debug_flag opts) (currentTeam (sh ctx)))
                  (getContextName w (sh ctx)) opts))"

subsection \<open>The argument parsers, from the specification\<close>

text \<open>
  \<open>getDCsFromArgs\<close>, \<open>getMinFromArgs\<close> and \<open>getMaxFromArgs\<close> are imported from
  \<open>../util/scale\<close> and are not in the source tree. The definitions of this subsection follow
  the specification's target resolver and bound parser; \<open>main\<close> above does not depend on
  them.
\<close>






text \<open>
  Modelled from the spec: \<open>getDCsFromArgs\<close> (\<open>../util/scale/get-dcs-from-args\<close>) is not in the
  source tree. The specification's target resolver: \<open>all\<close> together with any other target
  token is \<open>InvalidAllForScale\<close>; a token that is not a well-formed region or datacenter
  code is \<open>InvalidRegionOrDCForScale\<close>, carrying the token; otherwise the targets, in
  order and without duplicates. Neither the specification nor \<open>main\<close> says which part of
  the argument list holds the target tokens, nor which codes are well formed, so both
  are parameters: \<open>targets_of\<close> picks the target tokens and \<open>known\<close> recognises a code.
\<close>

definition spec_getDCsFromArgs ::
    "(string \<Rightarrow> bool) \<Rightarrow> (string list \<Rightarrow> string list) \<Rightarrow> string list \<Rightarrow> dcs_error + string list" where
  "spec_getDCsFromArgs known targets_of args =
    (if ''all'' \<in> set (targets_of args) \<and> (\<exists>t \<in> set (targets_of args). t \<noteq> ''all'')
       then Inl InvalidAllForScale
     else (case find (\<lambda>t. t \<noteq> ''all'' \<and> \<not> known t) (targets_of args) of
             Some t \<Rightarrow> Inl (InvalidRegionOrDCForScale t)
           | None \<Rightarrow> Inr (remdups (targets_of args))))"

subsection \<open>The convergence poller, from the specification\<close>

text \<open>
  \<open>waitVerifyDeploymentScale\<close> is imported from \<open>../util/scale\<close> and is not in the source
  tree. The definitions of this subsection follow the specification's convergence poller;
  \<open>main\<close> above does not depend on them.
\<close>

text \<open>
  Modelled from the spec: the scale snapshot the missing poller fetches, the reported state
  of each target. The requested bound of a target is its range, so the reported state holds
  one count for each end of it.
\<close>

type_synonym snapshot = "(string \<times> (int \<times> int)) list"

text \<open>
  Modelled from the spec: when a reported count satisfies a requested bound of the missing
  poller: "exact match for concrete integers; any non-negative count is acceptable for
  \<open>auto\<close>".
\<close>

fun satisfies :: "bound \<Rightarrow> int \<Rightarrow> bool" where
  "satisfies (Num n) c = (c = int n)"
| "satisfies Auto c = (0 \<le> c)"

text \<open>
  Modelled from the spec: convergence, for the missing poller: "every requested target's
  reported state satisfies the requested bound". A target the snapshot does not report
  has not converged.
\<close>

definition converged :: "scale_spec \<Rightarrow> snapshot \<Rightarrow> bool" where
  "converged rules reported =
    list_all (\<lambda>(dc, mn, mx).
      (case map_of reported dc of
         None \<Rightarrow> False
       | Some (lo, hi) \<Rightarrow> satisfies mn lo \<and> satisfies mx hi)) rules"

text \<open>
  Modelled from the spec: the loop of the missing \<open>waitVerifyDeploymentScale\<close>, with the
  clock and the fetch passed in: \<open>fetch t\<close> is the snapshot fetched \<open>t\<close> milliseconds after
  polling began. The loop fetches and compares; on a match it returns without sleeping;
  otherwise it waits the fixed interval, unless the time elapsed would then exceed the
  timeout, and then it returns \<open>VerifyScaleTimeout\<close> carrying the timeout and fetches no
  more. With an interval of 0 the clock of the model stands still and the loop need not
  return, which is the value \<open>None\<close>.
\<close>

partial_function (option) poll ::
    "scale_spec \<Rightarrow> (nat \<Rightarrow> snapshot) \<Rightarrow> nat \<Rightarrow> nat \<Rightarrow> nat \<Rightarrow> (verify_error + unit) option" where
  "poll rules fetch timeout interval elapsed =
    (if converged rules (fetch elapsed) then Some (Inr ())
     else if timeout < elapsed + interval then Some (Inl (VerifyScaleTimeout timeout))
     else poll rules fetch timeout interval (elapsed + interval))"

subsection \<open>Example runs\<close>

text \<open>
  A deployment of type NPM whose stored scale rules name two datacenters, and a remote
  that resolves the targets to \<open>all\<close> with both bounds \<open>auto\<close>, accepts every patch,
  answers both fetches with that deployment and sees the rules realised.
\<close>

definition ready_deployment :: deployment where
  "ready_deployment =
    \<lparr>uid = ''dpl_7'', url = ''my-app.now.sh'', dtype = ''NPM'', state = ''READY'',
     scale = [(''sfo1'', (Num 0, Num 1)), (''bru1'', (Num 0, Num 1))]\<rparr>"

definition options :: "string list \<Rightarrow> cli_scale_options" where
  "options args =
    \<lparr>positional = args, help_flag = False, debug_flag = False, no_verify = False,
     verify_timeout = None\<rparr>"

definition remote :: collaborators where
  "remote =
    \<lparr>getArgs = (\<lambda>args. Inr (options args)),
     getContextName = (\<lambda>_. ''me''),
     getDCsFromArgs = (\<lambda>_. Inr [''all'']),
     getMinFromArgs = (\<lambda>_. Inr Auto),
     getMaxFromArgs = (\<lambda>_. Inr Auto),
     getDeploymentByIdOrHost = (\<lambda>_ _ _. Resolves (Inr ready_deployment)),
     patchDeploymentScale = (\<lambda>_ _ rules _. Resolves (Inr rules)),
     getDeploymentByIdOrThrow = (\<lambda>_ _ _. Resolves ready_deployment),
     waitVerifyDeploymentScale = (\<lambda>_ _ _. Resolves (Inr ()))\<rparr>"

definition api_client :: now where
  "api_client = Now ''https://api.zeit.co'' ''t0k3n'' False None"

text \<open>The same remote, with a static deployment behind the identifier.\<close>

definition static_remote :: collaborators where
  "static_remote =
    remote\<lparr>getDeploymentByIdOrHost :=
      (\<lambda>_ _ _. Resolves (Inr (ready_deployment\<lparr>dtype := ''STATIC''\<rparr>)))\<rparr>"

text \<open>A remote whose instances never come up: the poller gives up after its five minutes.\<close>

definition slow_remote :: collaborators where
  "slow_remote =
    remote\<lparr>waitVerifyDeploymentScale := (\<lambda>_ _ _. Resolves (Inl (VerifyScaleTimeout 300000)))\<rparr>"


text \<open>The same, with every argument after the identifier read as a target.\<close>

definition listing_remote :: collaborators where
  "listing_remote = remote\<lparr>getDCsFromArgs := spec_getDCsFromArgs (\<lambda>_. True) (drop 2)\<rparr>"

text \<open>
  A remote whose resolver reads two datacenters out of the one \<open><dc>\<close> argument, with
  \<open>min\<close> 1 and \<open>max\<close> 2.
\<close>

definition splitting_remote :: collaborators where
  "splitting_remote =
    remote\<lparr>getDCsFromArgs := (\<lambda>_. Inr [''sfo1'', ''bru1'']),
      getMinFromArgs := (\<lambda>_. Inr (Num 1)),
      getMaxFromArgs := (\<lambda>_. Inr (Num 2))\<rparr>"


text \<open>A remote whose target resolver refuses what it is given.\<close>

definition refusing_remote :: collaborators where
  "refusing_remote = remote\<lparr>getDCsFromArgs := (\<lambda>_. Inl InvalidAllForScale)\<rparr>"

subsection \<open>The path to the apply call\<close>

text \<open>
  The guards of lines 92 to 163, all passed: the identifier is not \<open>ls\<close>, there are three
  to five arguments, the three parsers return values, the fetch resolves to a deployment,
  and that deployment is neither static nor in the ERROR state. \<open>main\<close> calls
  \<open>patchDeploymentScale\<close> on these runs and on no other.
\<close>

definition reaches_apply ::
    "collaborators \<Rightarrow> now \<Rightarrow> string \<Rightarrow> cli_scale_options \<Rightarrow> string list \<Rightarrow> bound \<Rightarrow> bound \<Rightarrow> deployment \<Rightarrow> bool" where
  "reaches_apply w client contextName opts dcs mn mx d \<longleftrightarrow>
     at (positional opts) 1 \<noteq> Some ''ls''
     \<and> 3 \<le> length (positional opts) \<and> length (positional opts) \<le> 5
     \<and> getDCsFromArgs w (positional opts) = Inr dcs
     \<and> getMinFromArgs w (positional opts) = Inr mn
     \<and> getMaxFromArgs w (positional opts) = Inr mx
     \<and> getDeploymentByIdOrHost w client contextName (positional opts ! 1) = Resolves (Inr d)
     \<and> dtype d \<noteq> ''STATIC'' \<and> state d \<noteq> ''ERROR''"

section \<open>Properties\<close>

subsection \<open>Stage by stage\<close>

lemma emit_simps [simp]: "fst (emit es r) = fst r" "snd (emit es r) = es @ snd r"
  by (simp_all add: emit_def)

lemmas run_defs = main_core_def main_parse_def main_fetch_def main_apply_def main_verify_def
  emit_def fail_def at_def scaleArgs_def put_def array_index_def is_digit_def

lemmas world_defs = remote_def options_def ready_deployment_def

text \<open>
  \<open>main\<close> hands over to the command proper once the flags are parsed, \<open>--help\<close> is not
  asked for and the \<open>sh\<close> credentials are found.
\<close>

lemma main_enters_core:
  assumes "getArgs w (drop 2 (argv ctx)) = Inr opts" and "\<not> help_flag opts"
    and "find (\<lambda>item. provider item = ''sh'') (credentials ctx) = Some cred"
  shows "main w ctx =
    main_core w (Now (apiUrl ctx) (token cred) (debug_flag opts) (currentTeam (sh ctx)))
      (getContextName w (sh ctx)) opts"
  using assms by (simp add: main_def)

lemma main_core_checked:
  assumes "at (positional opts) 1 \<noteq> Some ''ls''"
    and "3 \<le> length (positional opts)" and "length (positional opts) \<le> 5"
  shows "main_core w client contextName opts = main_parse w client contextName opts"
  using assms by (simp add: main_core_def)

lemma main_parse_resolved:
  assumes "getDCsFromArgs w (positional opts) = Inr dcs"
    and "getMinFromArgs w (positional opts) = Inr mn"
    and "getMaxFromArgs w (positional opts) = Inr mx"
  shows "main_parse w client contextName opts = main_fetch w client contextName opts dcs mn mx"
  using assms by (simp add: main_parse_def)

lemma main_fetch_scalable:
  assumes "getDeploymentByIdOrHost w client contextName (positional opts ! 1) = Resolves (Inr d)"
    and "dtype d \<noteq> ''STATIC''" and "state d \<noteq> ''ERROR''"
  shows "main_fetch w client contextName opts dcs mn mx =
    emit [Fetch (positional opts ! 1), LogFetched (url d)]
      (main_apply w client contextName opts dcs mn mx d)"
  using assms by (simp add: main_fetch_def emit_def)

lemma main_apply_accepted:
  assumes "patchDeploymentScale w client (uid d) (scaleArgs dcs mn mx) (url d) = Resolves (Inr echo)"
  shows "main_apply w client contextName opts dcs mn mx d =
    emit [DebugPresets (scaleArgs dcs mn mx), Patch (uid d) (scaleArgs dcs mn mx) (url d),
          Saved dcs mn mx]
      (main_verify w client contextName opts d)"
  using assms by (simp add: main_apply_def emit_def)


text \<open>The verification stage neither patches nor complains about the bounds.\<close>

lemma main_verify_no_patch:
  "filter is_patch (snd (main_verify w client contextName opts d)) = []"
  by (simp add: main_verify_def split: promise.splits sum.splits verify_error.splits)


lemma main_apply_one_patch:
  "filter is_patch (snd (main_apply w client contextName opts dcs mn mx d)) =
     [Patch (uid d) (scaleArgs dcs mn mx) (url d)]"
  by (simp add: main_apply_def fail_def main_verify_no_patch
      split: promise.splits sum.splits patch_error.splits)


subsection \<open>The runs that reach the apply call\<close>

lemma reaches_apply_run:
  assumes "reaches_apply w client contextName opts dcs mn mx d"
  shows "main_core w client contextName opts =
    emit [Fetch (positional opts ! 1), LogFetched (url d)]
      (main_apply w client contextName opts dcs mn mx d)"
proof -
  from assms have "main_core w client contextName opts = main_parse w client contextName opts"
    by (simp add: reaches_apply_def main_core_checked)
  also from assms have "\<dots> = main_fetch w client contextName opts dcs mn mx"
    by (simp add: reaches_apply_def main_parse_resolved)
  also from assms have "\<dots> = emit [Fetch (positional opts ! 1), LogFetched (url d)]
      (main_apply w client contextName opts dcs mn mx d)"
    by (simp add: reaches_apply_def main_fetch_scalable)
  finally show ?thesis .
qed

text \<open>No other run calls \<open>patchDeploymentScale\<close>.\<close>

lemma patch_is_called_only_there:
  assumes "Patch u rules link \<in> set (snd (main_core w client contextName opts))"
  shows "\<exists>dcs mn mx d. reaches_apply w client contextName opts dcs mn mx d"
  using assms
  by (auto simp add: main_core_def main_parse_def main_fetch_def fail_def reaches_apply_def
      split: if_splits sum.splits promise.splits dcs_error.splits min_error.splits
        max_error.splits fetch_error.splits)

lemma reaches_apply_accepted_run:
  assumes "reaches_apply w client contextName opts dcs mn mx d"
    and "patchDeploymentScale w client (uid d) (scaleArgs dcs mn mx) (url d) = Resolves (Inr echo)"
  shows "main_core w client contextName opts =
    emit [Fetch (positional opts ! 1), LogFetched (url d), DebugPresets (scaleArgs dcs mn mx),
          Patch (uid d) (scaleArgs dcs mn mx) (url d), Saved dcs mn mx]
      (main_verify w client contextName opts d)"
  using assms by (simp add: reaches_apply_run main_apply_accepted emit_def)

lemma remote_reaches_apply:
  "reaches_apply remote api_client ''me''
     (options [''scale'', ''my-app.now.sh'', ''all'', ''auto'', ''auto''])
     [''all''] Auto Auto ready_deployment"
  by (simp add: reaches_apply_def remote_def options_def ready_deployment_def at_def)

lemma remote_accepts:
  "patchDeploymentScale remote api_client (uid ready_deployment) (scaleArgs [''all''] Auto Auto)
     (url ready_deployment) = Resolves (Inr (scaleArgs [''all''] Auto Auto))"
  by (simp add: remote_def)

subsection \<open>The scale rules\<close>

lemma set_insert_index: "set (insert_index i k v obj) = insert (k, v) (set obj)"
  by (induction obj) (auto split: option.splits)

lemma distinct_insert_index:
  assumes "distinct (map fst obj)" and "k \<notin> fst ` set obj"
  shows "distinct (map fst (insert_index i k v obj))"
  using assms
proof (induction obj)
  case Nil
  then show ?case by simp
next
  case (Cons p ps)
  then have "fst p \<notin> fst ` set (insert_index i k v ps)"
    by (auto simp add: set_insert_index)
  with Cons show ?case
    by (auto split: option.splits)
qed

lemma put_shared_value:
  assumes "\<forall>p \<in> set obj. snd p = v"
  shows "set (put k v obj) = insert (k, v) (set obj)"
proof (cases "k \<in> fst ` set obj")
  case True
  then have present: "(k, v) \<in> set obj"
    using assms by force
  have "map (\<lambda>p. if fst p = k then (k, v) else p) obj = obj"
    using assms by (induction obj) auto
  with True present show ?thesis
    by (auto simp add: put_def)
next
  case False
  then show ?thesis
    by (auto simp add: put_def set_insert_index split: option.splits)
qed

lemma put_distinct:
  assumes "distinct (map fst obj)"
  shows "distinct (map fst (put k v obj))"
proof (cases "k \<in> fst ` set obj")
  case True
  have "map fst (map (\<lambda>p. if fst p = k then (k, v) else p) obj) = map fst obj"
    by (induction obj) auto
  then have "distinct (map fst (map (\<lambda>p. if fst p = k then (k, v) else p) obj))"
    using assms by (simp only:)
  with True show ?thesis
    by (simp only: put_def if_True)
next
  case False
  with assms show ?thesis
    by (auto simp add: put_def distinct_insert_index split: option.splits)
qed

lemma fold_put_entries:
  assumes "\<forall>p \<in> set acc. snd p = v"
  shows "set (fold (\<lambda>dc result. put dc v result) dcs acc) = set acc \<union> (\<lambda>dc. (dc, v)) ` set dcs"
  using assms
proof (induction dcs arbitrary: acc)
  case Nil
  then show ?case by simp
next
  case (Cons dc dcs)
  have step: "set (put dc v acc) = insert (dc, v) (set acc)"
    using Cons.prems by (rule put_shared_value)
  then have "\<forall>p \<in> set (put dc v acc). snd p = v"
    using Cons.prems by auto
  from Cons.IH[OF this] step show ?case by auto
qed

lemma fold_put_distinct:
  assumes "distinct (map fst acc)"
  shows "distinct (map fst (fold (\<lambda>dc result. put dc v result) dcs acc))"
  using assms by (induction dcs arbitrary: acc) (simp_all add: put_distinct)

text \<open>Index keys come first, in ascending order, whatever the order of the targets.\<close>

lemma scaleArgs_lists_indices_first:
  "scaleArgs [''sfo'', ''10'', ''bru'', ''2'', ''sfo''] Auto (Num 1) =
     [(''2'', Auto, Num 1), (''10'', Auto, Num 1), (''sfo'', Auto, Num 1), (''bru'', Auto, Num 1)]"
  by (simp add: scaleArgs_def put_def array_index_def is_digit_def)

lemma scaleArgs_entries: "set (scaleArgs dcs mn mx) = (\<lambda>dc. (dc, (mn, mx))) ` set dcs"
  by (simp add: scaleArgs_def fold_put_entries)

lemma scaleArgs_distinct: "distinct (map fst (scaleArgs dcs mn mx))"
  by (simp add: scaleArgs_def fold_put_distinct)

subsection \<open>The old subcommand and the number of arguments\<close>

text \<open>
  Claim C10. Whenever the deployment-identifier position \<open>argv._[1]\<close> holds the literal
  \<open>ls\<close>, the command fails with the deprecation error and closes the client: that is the
  whole run, whatever the number of arguments, the parsers and the remote are. No network
  call is made, and in particular no deployment called \<open>ls\<close> is ever patched. The command
  is \<open>main\<close> from line 91 on, which \<open>main_enters_core\<close> shows to be all of \<open>main\<close> once
  the flags are parsed, \<open>--help\<close> is not asked for and the token is found.
\<close>

theorem ls_is_refused_first:
  assumes "at (positional opts) 1 = Some ''ls''"
  shows "main_core w client contextName opts = (Exit 1, [ErrorOut DeprecatedLs, Closed])
    \<and> filter is_network (snd (main_core w client contextName opts)) = []
    \<and> filter is_patch (snd (main_core w client contextName opts)) = []"
  using assms by (simp add: main_core_def fail_def)

theorem ls_is_refused_first_witness:
  "at (positional (options [''scale'', ''ls'', ''sfo'', ''1'', ''2''])) 1 = Some ''ls''
   \<and> main_core remote api_client ''me'' (options [''scale'', ''ls'', ''sfo'', ''1'', ''2''])
       = (Exit 1, [ErrorOut DeprecatedLs, Closed])"
  using ls_is_refused_first
    [where w = remote and client = api_client and contextName = "''me''"
       and opts = "options [''scale'', ''ls'', ''sfo'', ''1'', ''2'']"]
  by (simp add: options_def at_def)

text \<open>
  Claim C9, as stated, fails twice. Where the identifier is \<open>ls\<close>: with the two arguments
  \<open>scale ls\<close> the list is shorter than three, and the run ends with the deprecation error
  of line 93, not with the usage error of line 100. And the count bounds the tokens, not
  the targets: when the resolver reads two datacenters out of the one \<open><dc>\<close> argument,
  the five arguments \<open>scale my-app.now.sh sfo1,bru1 1 2\<close> pass the check and both targets
  are patched with the explicit \<open>min\<close> and \<open>max\<close>.
\<close>

theorem argument_count_does_not_bound_the_targets:
  "length (positional (options [''scale'', ''ls''])) < 3
   \<and> main_core remote api_client ''me'' (options [''scale'', ''ls''])
       = (Exit 1, [ErrorOut DeprecatedLs, Closed])
   \<and> length (positional (options [''scale'', ''my-app.now.sh'', ''sfo1,bru1'', ''1'', ''2''])) = 5
   \<and> main_core splitting_remote api_client ''me''
        (options [''scale'', ''my-app.now.sh'', ''sfo1,bru1'', ''1'', ''2''])
       = (Exit 0,
          [Fetch ''my-app.now.sh'', LogFetched ''my-app.now.sh'',
           DebugPresets [(''sfo1'', Num 1, Num 2), (''bru1'', Num 1, Num 2)],
           Patch ''dpl_7'' [(''sfo1'', Num 1, Num 2), (''bru1'', Num 1, Num 2)] ''my-app.now.sh'',
           Saved [''sfo1'', ''bru1''] (Num 1) (Num 2), Refetch ''dpl_7'',
           WaitVerify ''dpl_7'' [(''sfo1'', Num 0, Num 1), (''bru1'', Num 0, Num 1)],
           Verified, Closed])"
  by (simp add: run_defs world_defs splitting_remote_def)

text \<open>
  Claim C9, amended. Whenever the identifier position does not hold \<open>ls\<close> and the positional
  list has fewer than three or more than five entries, the command fails with the usage
  error, prints the help and closes the client: that is the whole run, so no target is
  resolved, no bound parsed and no network call made. Hence on every run that ends
  otherwise at most three tokens follow the identifier, and a list that holds the
  subcommand, the identifier, two or more target tokens, a min token and a max token is
  refused this way. How many targets the resolver reads out of one token is not bounded
  by the count.
\<close>

theorem argument_count_is_checked:
  assumes "at (positional opts) 1 \<noteq> Some ''ls''"
  shows "(length (positional opts) < 3 \<or> 5 < length (positional opts)
        \<longrightarrow> main_core w client contextName opts = (Exit 1, [ErrorOut ExpectsArguments, HelpOut, Closed]))
    \<and> (main_core w client contextName opts \<noteq> (Exit 1, [ErrorOut ExpectsArguments, HelpOut, Closed])
        \<longrightarrow> length (drop 2 (positional opts)) \<le> 3)
    \<and> (positional opts = cmd # ident # targets @ [smin, smax] \<and> 2 \<le> length targets
        \<longrightarrow> main_core w client contextName opts = (Exit 1, [ErrorOut ExpectsArguments, HelpOut, Closed]))"
  using assms by (auto simp add: main_core_def)

theorem argument_count_is_checked_witness:
  "at (positional (options [''scale'', ''my-app.now.sh'', ''sfo'', ''bru'', ''0'', ''1''])) 1 \<noteq> Some ''ls''
   \<and> 5 < length (positional (options [''scale'', ''my-app.now.sh'', ''sfo'', ''bru'', ''0'', ''1'']))
   \<and> positional (options [''scale'', ''my-app.now.sh'', ''sfo'', ''bru'', ''0'', ''1''])
       = ''scale'' # ''my-app.now.sh'' # [''sfo'', ''bru''] @ [''0'', ''1'']
   \<and> main_core remote api_client ''me''
        (options [''scale'', ''my-app.now.sh'', ''sfo'', ''bru'', ''0'', ''1''])
       = (Exit 1, [ErrorOut ExpectsArguments, HelpOut, Closed])"
  using argument_count_is_checked
    [where w = remote and client = api_client and contextName = "''me''"
       and opts = "options [''scale'', ''my-app.now.sh'', ''sfo'', ''bru'', ''0'', ''1'']"
       and cmd = "''scale''" and ident = "''my-app.now.sh''" and targets = "[''sfo'', ''bru'']"
       and smin = "''0''" and smax = "''1''"]
  by (simp add: options_def at_def)

subsection \<open>Failures of the parsers\<close>

text \<open>
  Claim C3. Whenever target resolution or the parsing of \<open>min\<close> or \<open>max\<close> fails, that is
  whenever one of the three helpers returns an error (\<open>InvalidAllForScale\<close>,
  \<open>InvalidRegionOrDCForScale\<close>, \<open>InvalidMinForScale\<close>, \<open>InvalidArgsForMinMaxScale\<close> or
  \<open>InvalidMaxForScale\<close>) on the argument list, the command exits with status 1 and its
  run holds no network call: neither fetch, nor the patch, nor the poller.
\<close>

theorem parse_failure_makes_no_call:
  assumes "isl (getDCsFromArgs w (positional opts)) \<or> isl (getMinFromArgs w (positional opts))
      \<or> isl (getMaxFromArgs w (positional opts))"
  shows "fst (main_core w client contextName opts) = Exit 1
    \<and> filter is_network (snd (main_core w client contextName opts)) = []"
  using assms
  by (auto simp add: main_core_def main_parse_def fail_def
      split: sum.splits dcs_error.splits min_error.splits max_error.splits)

theorem parse_failure_makes_no_call_witness:
  "isl (getDCsFromArgs refusing_remote (positional (options [''scale'', ''my-app.now.sh'', ''all,sfo''])))
   \<and> main_core refusing_remote api_client ''me'' (options [''scale'', ''my-app.now.sh'', ''all,sfo''])
       = (Exit 1, [ErrorOut AllWithOthers, Closed])"
  using parse_failure_makes_no_call
    [where w = refusing_remote and client = api_client and contextName = "''me''"
       and opts = "options [''scale'', ''my-app.now.sh'', ''all,sfo'']"]
  by (simp add: refusing_remote_def remote_def options_def run_defs)

subsection \<open>Static deployments\<close>

text \<open>
  Claim C2, as stated, fails: the type of a deployment is known only from the answer to
  \<open>getDeploymentByIdOrHost\<close>, so the run against a static deployment holds one network
  call, the fetch, before the rejection.
\<close>

theorem static_is_rejected_after_a_network_call:
  "main_core static_remote api_client ''me''
      (options [''scale'', ''my-app.now.sh'', ''all'', ''auto'', ''auto''])
     = (Exit 1, [Fetch ''my-app.now.sh'', LogFetched ''my-app.now.sh'',
                 ErrorOut StaticDeployment, Closed])
   \<and> filter is_network (snd (main_core static_remote api_client ''me''
      (options [''scale'', ''my-app.now.sh'', ''all'', ''auto'', ''auto''])))
     = [Fetch ''my-app.now.sh'']"
  by (simp add: run_defs world_defs static_remote_def)

text \<open>
  Claim C2, amended. For targets \<open>all\<close> with \<open>min\<close> and \<open>max\<close> both \<open>auto\<close>, as for any
  other resolved targets and bounds, a deployment of type STATIC is rejected after one
  network call, the fetch that tells its type, and before the apply step: the run is the
  fetch, the log line, the error and the close, and \<open>patchDeploymentScale\<close> is not called.
\<close>

theorem static_is_rejected_after_the_fetch:
  assumes "at (positional opts) 1 \<noteq> Some ''ls''"
    and "3 \<le> length (positional opts)" and "length (positional opts) \<le> 5"
    and "getDCsFromArgs w (positional opts) = Inr dcs"
    and "getMinFromArgs w (positional opts) = Inr mn"
    and "getMaxFromArgs w (positional opts) = Inr mx"
    and "getDeploymentByIdOrHost w client contextName (positional opts ! 1) = Resolves (Inr d)"
    and "dtype d = ''STATIC''"
  shows "main_core w client contextName opts =
      (Exit 1, [Fetch (positional opts ! 1), LogFetched (url d), ErrorOut StaticDeployment, Closed])
    \<and> filter is_network (snd (main_core w client contextName opts)) = [Fetch (positional opts ! 1)]
    \<and> filter is_patch (snd (main_core w client contextName opts)) = []"
proof -
  have "main_core w client contextName opts = main_fetch w client contextName opts dcs mn mx"
    using assms(1-6) by (simp add: main_core_checked main_parse_resolved)
  also have "\<dots> = (Exit 1, [Fetch (positional opts ! 1), LogFetched (url d),
      ErrorOut StaticDeployment, Closed])"
    using assms(7,8) by (simp add: main_fetch_def emit_def fail_def)
  finally show ?thesis by simp
qed

theorem static_is_rejected_after_the_fetch_witness:
  "getDCsFromArgs static_remote [''scale'', ''my-app.now.sh'', ''all'', ''auto'', ''auto''] = Inr [''all'']
   \<and> getMinFromArgs static_remote [''scale'', ''my-app.now.sh'', ''all'', ''auto'', ''auto''] = Inr Auto
   \<and> getMaxFromArgs static_remote [''scale'', ''my-app.now.sh'', ''all'', ''auto'', ''auto''] = Inr Auto
   \<and> getDeploymentByIdOrHost static_remote api_client ''me'' ''my-app.now.sh''
       = Resolves (Inr (ready_deployment\<lparr>dtype := ''STATIC''\<rparr>))
   \<and> main_core static_remote api_client ''me''
       (options [''scale'', ''my-app.now.sh'', ''all'', ''auto'', ''auto''])
       = (Exit 1, [Fetch ''my-app.now.sh'', LogFetched ''my-app.now.sh'',
                   ErrorOut StaticDeployment, Closed])
   \<and> filter is_patch (snd (main_core static_remote api_client ''me''
       (options [''scale'', ''my-app.now.sh'', ''all'', ''auto'', ''auto'']))) = []"
  using static_is_rejected_after_the_fetch
    [where w = static_remote and client = api_client and contextName = "''me''"
       and opts = "options [''scale'', ''my-app.now.sh'', ''all'', ''auto'', ''auto'']"
       and dcs = "[''all'']" and mn = Auto and mx = Auto
       and d = "ready_deployment\<lparr>dtype := ''STATIC''\<rparr>"]
  by (simp add: static_remote_def remote_def options_def ready_deployment_def at_def)

subsection \<open>Building and submitting the scale rules\<close>

text \<open>
  Claim C5. For resolved targets \<open>dcs\<close> and bounds \<open>min\<close>, \<open>max\<close>, the rules built on line
  165 hold exactly one entry per target, each the pair \<open>(min, max)\<close>, with no key twice;
  building them cannot fail. On every run that reaches the apply step these rules are
  submitted in one call of \<open>patchDeploymentScale\<close>, the only one of the run.
\<close>

theorem scale_spec_is_built_and_submitted_once:
  assumes "reaches_apply w client contextName opts dcs mn mx d"
  shows "set (scaleArgs dcs mn mx) = (\<lambda>dc. (dc, (mn, mx))) ` set dcs
    \<and> distinct (map fst (scaleArgs dcs mn mx))
    \<and> filter is_patch (snd (main_core w client contextName opts))
        = [Patch (uid d) (scaleArgs dcs mn mx) (url d)]"
  using assms
  by (simp add: scaleArgs_entries scaleArgs_distinct reaches_apply_run main_apply_one_patch)

theorem scale_spec_is_built_and_submitted_once_witness:
  "reaches_apply remote api_client ''me''
     (options [''scale'', ''my-app.now.sh'', ''all'', ''auto'', ''auto''])
     [''all''] Auto Auto ready_deployment
   \<and> set (scaleArgs [''all''] Auto Auto) = {(''all'', (Auto, Auto))}
   \<and> filter is_patch (snd (main_core remote api_client ''me''
        (options [''scale'', ''my-app.now.sh'', ''all'', ''auto'', ''auto''])))
      = [Patch ''dpl_7'' [(''all'', (Auto, Auto))] ''my-app.now.sh'']"
  using scale_spec_is_built_and_submitted_once [OF remote_reaches_apply] remote_reaches_apply
  by (simp add: ready_deployment_def scaleArgs_def put_def array_index_def is_digit_def)

subsection \<open>Verification\<close>

text \<open>
  Claim C6. On every run whose patch was accepted, the poller is called if and only if
  \<open>--no-verify\<close> is absent and the deployment fetched again is of type NPM or DOCKER. When
  the flag is absent and the type is any other, the run ends after the second fetch with
  exit status 0 and no call of the poller; with the flag the run ends with exit status 0
  before the second fetch.
\<close>

theorem poller_runs_iff_verification_applies:
  assumes "reaches_apply w client contextName opts dcs mn mx d"
    and "patchDeploymentScale w client (uid d) (scaleArgs dcs mn mx) (url d) = Resolves (Inr echo)"
  shows "(filter is_wait_verify (snd (main_core w client contextName opts)) \<noteq> [])
        = (\<not> no_verify opts
           \<and> (\<exists>u. getDeploymentByIdOrThrow w client contextName (uid d) = Resolves u
                 \<and> (dtype u = ''NPM'' \<or> dtype u = ''DOCKER'')))
    \<and> (\<not> no_verify opts
        \<and> getDeploymentByIdOrThrow w client contextName (uid d) = Resolves u
        \<and> dtype u \<noteq> ''NPM'' \<and> dtype u \<noteq> ''DOCKER''
        \<longrightarrow> main_core w client contextName opts =
             (Exit 0, [Fetch (positional opts ! 1), LogFetched (url d),
                DebugPresets (scaleArgs dcs mn mx), Patch (uid d) (scaleArgs dcs mn mx) (url d),
                Saved dcs mn mx, Refetch (uid d), Closed]))
    \<and> (no_verify opts
        \<longrightarrow> main_core w client contextName opts =
             (Exit 0, [Fetch (positional opts ! 1), LogFetched (url d),
                DebugPresets (scaleArgs dcs mn mx), Patch (uid d) (scaleArgs dcs mn mx) (url d),
                Saved dcs mn mx, Closed]))"
proof -
  have run: "main_core w client contextName opts =
      emit [Fetch (positional opts ! 1), LogFetched (url d), DebugPresets (scaleArgs dcs mn mx),
            Patch (uid d) (scaleArgs dcs mn mx) (url d), Saved dcs mn mx]
        (main_verify w client contextName opts d)"
    using assms by (rule reaches_apply_accepted_run)
  show ?thesis
    unfolding run
    by (auto simp add: main_verify_def emit_def split: promise.splits sum.splits verify_error.splits)
qed

theorem poller_runs_iff_verification_applies_witness:
  "reaches_apply remote api_client ''me''
     (options [''scale'', ''my-app.now.sh'', ''all'', ''auto'', ''auto''])
     [''all''] Auto Auto ready_deployment
   \<and> patchDeploymentScale remote api_client ''dpl_7'' [(''all'', (Auto, Auto))] ''my-app.now.sh''
       = Resolves (Inr [(''all'', (Auto, Auto))])
   \<and> filter is_wait_verify (snd (main_core remote api_client ''me''
        (options [''scale'', ''my-app.now.sh'', ''all'', ''auto'', ''auto'']))) \<noteq> []
   \<and> \<not> no_verify (options [''scale'', ''my-app.now.sh'', ''all'', ''auto'', ''auto''])
   \<and> getDeploymentByIdOrThrow remote api_client ''me'' ''dpl_7'' = Resolves ready_deployment
   \<and> dtype ready_deployment = ''NPM''"
  using poller_runs_iff_verification_applies [OF remote_reaches_apply remote_accepts]
    remote_reaches_apply
  by (simp add: remote_def ready_deployment_def options_def)

text \<open>On no other run is the poller called, and never with other arguments.\<close>

lemma main_verify_polls_only_then:
  assumes "WaitVerify p rules \<in> set (snd (main_verify w client contextName opts d))"
  shows "\<not> no_verify opts
    \<and> (\<exists>u. getDeploymentByIdOrThrow w client contextName (uid d) = Resolves u
          \<and> (dtype u = ''NPM'' \<or> dtype u = ''DOCKER'') \<and> p = uid d \<and> rules = scale u)"
  using assms
  by (auto simp add: main_verify_def split: if_splits promise.splits sum.splits verify_error.splits)

lemma main_apply_polls_only_then:
  assumes "WaitVerify p rules \<in> set (snd (main_apply w client contextName opts dcs mn mx d))"
  shows "(\<exists>echo. patchDeploymentScale w client (uid d) (scaleArgs dcs mn mx) (url d)
            = Resolves (Inr echo))
    \<and> WaitVerify p rules \<in> set (snd (main_verify w client contextName opts d))"
  using assms
  by (auto simp add: main_apply_def fail_def split: promise.splits sum.splits patch_error.splits)

lemma poller_is_called_only_then:
  assumes "WaitVerify p rules \<in> set (snd (main_core w client contextName opts))"
  shows "\<exists>dcs mn mx d echo u.
      reaches_apply w client contextName opts dcs mn mx d
      \<and> patchDeploymentScale w client (uid d) (scaleArgs dcs mn mx) (url d) = Resolves (Inr echo)
      \<and> \<not> no_verify opts
      \<and> getDeploymentByIdOrThrow w client contextName (uid d) = Resolves u
      \<and> (dtype u = ''NPM'' \<or> dtype u = ''DOCKER'') \<and> p = uid d \<and> rules = scale u"
proof -
  from assms obtain dcs mn mx d
    where reach: "reaches_apply w client contextName opts dcs mn mx d"
      and inner: "WaitVerify p rules \<in> set (snd (main_apply w client contextName opts dcs mn mx d))"
    by (auto simp add: main_core_def main_parse_def main_fetch_def fail_def reaches_apply_def
        split: if_splits sum.splits promise.splits dcs_error.splits min_error.splits
          max_error.splits fetch_error.splits)
  from main_apply_polls_only_then [OF inner] obtain echo
    where accepted: "patchDeploymentScale w client (uid d) (scaleArgs dcs mn mx) (url d)
        = Resolves (Inr echo)"
      and last: "WaitVerify p rules \<in> set (snd (main_verify w client contextName opts d))"
    by blast
  from main_verify_polls_only_then [OF last] reach accepted show ?thesis
    by blast
qed

subsection \<open>Against the specification's poller\<close>

text \<open>
  What the polling loop returns, when it returns: success, and then some fetch within the
  deadline converged; or the timeout it was given, and then no fetch within the deadline
  did.
\<close>

lemma poll_result:
  assumes "poll rules fetch timeout interval elapsed = Some r"
  shows "(r = Inr ()
           \<and> (\<exists>j. (j = 0 \<or> elapsed + j * interval \<le> timeout)
                 \<and> converged rules (fetch (elapsed + j * interval))))
       \<or> (r = Inl (VerifyScaleTimeout timeout)
           \<and> (\<forall>j. j = 0 \<or> elapsed + j * interval \<le> timeout
                 \<longrightarrow> \<not> converged rules (fetch (elapsed + j * interval))))"
  using assms
proof (induction rules fetch timeout interval elapsed r
    rule: poll.raw_induct [rotated 1, consumes 1, case_names step])
  case (step again rules fetch timeout interval elapsed r)
  note again = step(1) and body = step(2)
  show ?case
  proof (cases "converged rules (fetch elapsed)")
    case True
    with body have "r = Inr ()" by simp
    moreover have "\<exists>j. (j = 0 \<or> elapsed + j * interval \<le> timeout)
        \<and> converged rules (fetch (elapsed + j * interval))"
      using True by (intro exI [of _ 0]) simp
    ultimately show ?thesis by blast
  next
    case False
    show ?thesis
    proof (cases "timeout < elapsed + interval")
      case True
      with False body have r: "r = Inl (VerifyScaleTimeout timeout)" by simp
      have "\<not> converged rules (fetch (elapsed + j * interval))"
        if "j = 0 \<or> elapsed + j * interval \<le> timeout" for j
      proof (cases j)
        case 0
        with False show ?thesis by simp
      next
        case (Suc i)
        then have "elapsed + interval \<le> elapsed + j * interval" by simp
        with True that Suc show ?thesis by simp
      qed
      with r show ?thesis by blast
    next
      case within: False
      with False body
      have "again rules fetch timeout interval (elapsed + interval) = Some r" by simp
      from again [OF this] consider
          (conv) j where "r = Inr ()"
            and "j = 0 \<or> elapsed + interval + j * interval \<le> timeout"
            and "converged rules (fetch (elapsed + interval + j * interval))"
        | (late) "r = Inl (VerifyScaleTimeout timeout)"
            and "\<forall>j. j = 0 \<or> elapsed + interval + j * interval \<le> timeout
              \<longrightarrow> \<not> converged rules (fetch (elapsed + interval + j * interval))"
        by blast
      then show ?thesis
      proof cases
        case conv
        have "elapsed + Suc j * interval \<le> timeout"
          using conv(2) within by (auto simp add: algebra_simps)
        moreover have "converged rules (fetch (elapsed + Suc j * interval))"
          using conv(3) by (simp add: algebra_simps)
        ultimately show ?thesis using conv(1) by blast
      next
        case late
        have "\<not> converged rules (fetch (elapsed + j * interval))"
          if "j = 0 \<or> elapsed + j * interval \<le> timeout" for j
        proof (cases j)
          case 0
          with False show ?thesis by simp
        next
          case (Suc i)
          with that have "elapsed + interval + i * interval \<le> timeout"
            by (simp add: algebra_simps)
          with late(2) have "\<not> converged rules (fetch (elapsed + interval + i * interval))"
            by blast
          with Suc show ?thesis by (simp add: algebra_simps)
        qed
        with late(1) show ?thesis by blast
      qed
    qed
  qed
qed

text \<open>With a positive interval the loop returns.\<close>

lemma poll_returns:
  assumes "0 < interval"
  shows "\<exists>r. poll rules fetch timeout interval elapsed = Some r"
proof (induction "Suc timeout - elapsed" arbitrary: elapsed rule: less_induct)
  case less
  show ?case
  proof (cases "converged rules (fetch elapsed) \<or> timeout < elapsed + interval")
    case True
    then show ?thesis by (subst poll.simps) auto
  next
    case False
    then have "Suc timeout - (elapsed + interval) < Suc timeout - elapsed"
      using assms by linarith
    from less [OF this] obtain r
      where "poll rules fetch timeout interval (elapsed + interval) = Some r" by blast
    with False show ?thesis by (subst poll.simps) simp
  qed
qed


lemma poll_carries_timeout:
  assumes "poll rules fetch timeout interval elapsed = Some (Inl (VerifyScaleTimeout t))"
  shows "t = timeout"
  using poll_result [OF assms] by auto





subsection \<open>The verification timeout\<close>

text \<open>
  \<open>--verify-timeout\<close> is declared on line 66 and documented by \<open>help\<close> (line 39), and
  \<open>main\<close> never reads it again: no stage of the command depends on its value, and line 203
  calls the poller without it.
\<close>

lemma main_verify_ignores_timeout:
  "main_verify w client contextName (opts\<lparr>verify_timeout := t\<rparr>) d
     = main_verify w client contextName opts d"
  by (simp add: main_verify_def)

lemma main_apply_ignores_timeout:
  "main_apply w client contextName (opts\<lparr>verify_timeout := t\<rparr>) dcs mn mx d
     = main_apply w client contextName opts dcs mn mx d"
  by (simp add: main_apply_def main_verify_ignores_timeout
      split: promise.splits sum.splits patch_error.splits)

lemma main_fetch_ignores_timeout:
  "main_fetch w client contextName (opts\<lparr>verify_timeout := t\<rparr>) dcs mn mx
     = main_fetch w client contextName opts dcs mn mx"
  by (simp add: main_fetch_def main_apply_ignores_timeout
      split: promise.splits sum.splits fetch_error.splits)

lemma main_parse_ignores_timeout:
  "main_parse w client contextName (opts\<lparr>verify_timeout := t\<rparr>)
     = main_parse w client contextName opts"
  by (simp add: main_parse_def main_fetch_ignores_timeout
      split: sum.splits dcs_error.splits min_error.splits max_error.splits)

lemma verify_timeout_is_never_read:
  "main_core w client contextName (opts\<lparr>verify_timeout := t\<rparr>) = main_core w client contextName opts"
  by (simp add: main_core_def main_parse_ignores_timeout)

text \<open>A timeout of the poller is reported, with the duration it carries, and is not a fault.\<close>

lemma timeout_is_reported:
  assumes "reaches_apply w client contextName opts dcs mn mx d"
    and "patchDeploymentScale w client (uid d) (scaleArgs dcs mn mx) (url d) = Resolves (Inr echo)"
    and "\<not> no_verify opts"
    and "getDeploymentByIdOrThrow w client contextName (uid d) = Resolves u"
    and "dtype u = ''NPM'' \<or> dtype u = ''DOCKER''"
    and "waitVerifyDeploymentScale w client (uid d) (scale u) = Resolves (Inl (VerifyScaleTimeout t))"
  shows "main_core w client contextName opts =
    (Exit 1, [Fetch (positional opts ! 1), LogFetched (url d), DebugPresets (scaleArgs dcs mn mx),
       Patch (uid d) (scaleArgs dcs mn mx) (url d), Saved dcs mn mx, Refetch (uid d),
       WaitVerify (uid d) (scale u), ErrorOut (VerificationTimedOut t), Closed])"
proof -
  have "main_verify w client contextName opts d =
      (Exit 1, [Refetch (uid d), WaitVerify (uid d) (scale u),
         ErrorOut (VerificationTimedOut t), Closed])"
    using assms(3-6) by (auto simp add: main_verify_def emit_def)
  with reaches_apply_accepted_run [OF assms(1,2)] show ?thesis
    by (simp add: emit_def)
qed

text \<open>
  Claim C7, on the run \<open>scale my-app.now.sh all auto auto --verify-timeout 1000\<close> against
  instances that never come up. The timeout is a reported outcome: the error is printed,
  the client closed and the status is 1. The duration reported is the one the poller
  carries, its own 300000 ms here, and not the 1000 ms that were configured: the option
  does not reach the poller.
\<close>

theorem configured_timeout_is_not_the_one_reported:
  "verify_timeout ((options [''scale'', ''my-app.now.sh'', ''all'', ''auto'', ''auto''])
      \<lparr>verify_timeout := Some 1000\<rparr>) = Some 1000
   \<and> main_core slow_remote api_client ''me''
       ((options [''scale'', ''my-app.now.sh'', ''all'', ''auto'', ''auto''])
          \<lparr>verify_timeout := Some 1000\<rparr>)
     = (Exit 1,
        [Fetch ''my-app.now.sh'', LogFetched ''my-app.now.sh'',
         DebugPresets [(''all'', Auto, Auto)],
         Patch ''dpl_7'' [(''all'', Auto, Auto)] ''my-app.now.sh'',
         Saved [''all''] Auto Auto, Refetch ''dpl_7'',
         WaitVerify ''dpl_7'' [(''sfo1'', Num 0, Num 1), (''bru1'', Num 0, Num 1)],
         ErrorOut (VerificationTimedOut 300000), Closed])"
  by (simp add: run_defs world_defs slow_remote_def)

subsection \<open>Against the specification's parsers\<close>







lemma spec_resolver_refuses_all_with_other:
  assumes "''all'' \<in> set (targets_of args)" and "t \<in> set (targets_of args)" and "t \<noteq> ''all''"
  shows "spec_getDCsFromArgs known targets_of args = Inl InvalidAllForScale"
proof -
  have "\<exists>t \<in> set (targets_of args). t \<noteq> ''all''"
    using assms(2,3) by blast
  with assms(1) show ?thesis
    unfolding spec_getDCsFromArgs_def by simp
qed

lemma unresolved_targets_run:
  assumes "getDCsFromArgs w (positional opts) = Inl InvalidAllForScale"
  shows "fst (main_core w client contextName opts) = Exit 1"
    and "filter is_network (snd (main_core w client contextName opts)) = []"
    and "at (positional opts) 1 \<noteq> Some ''ls''
        \<and> 3 \<le> length (positional opts) \<and> length (positional opts) \<le> 5
        \<longrightarrow> main_core w client contextName opts = (Exit 1, [ErrorOut AllWithOthers, Closed])"
  using assms by (simp_all add: main_core_def main_parse_def fail_def)

text \<open>
  Claim C8. Whenever \<open>all\<close> stands among the target tokens of the argument list together
  with a token other than \<open>all\<close>, the specification's target resolver returns
  \<open>InvalidAllForScale\<close>, whichever tokens count as targets and whichever codes are known,
  and a command that resolves its targets this way exits with status 1 and makes no
  network call; past the two checks of the argument list, its run is the error of line
  108 and the close.
\<close>

theorem all_with_another_target_is_refused:
  assumes "getDCsFromArgs w = spec_getDCsFromArgs known targets_of"
    and "''all'' \<in> set (targets_of (positional opts))"
    and "t \<in> set (targets_of (positional opts))" and "t \<noteq> ''all''"
  shows "getDCsFromArgs w (positional opts) = Inl InvalidAllForScale
    \<and> fst (main_core w client contextName opts) = Exit 1
    \<and> filter is_network (snd (main_core w client contextName opts)) = []
    \<and> (at (positional opts) 1 \<noteq> Some ''ls''
        \<and> 3 \<le> length (positional opts) \<and> length (positional opts) \<le> 5
        \<longrightarrow> main_core w client contextName opts = (Exit 1, [ErrorOut AllWithOthers, Closed]))"
proof -
  have "spec_getDCsFromArgs known targets_of (positional opts) = Inl InvalidAllForScale"
    using assms(2-4) by (rule spec_resolver_refuses_all_with_other)
  then have refused: "getDCsFromArgs w (positional opts) = Inl InvalidAllForScale"
    by (simp only: assms(1))
  from refused unresolved_targets_run [OF refused] show ?thesis
    by blast
qed

theorem all_with_another_target_is_refused_witness:
  "''all'' \<in> set (drop 2 (positional (options [''scale'', ''my-app.now.sh'', ''all'', ''sfo''])))
   \<and> ''sfo'' \<in> set (drop 2 (positional (options [''scale'', ''my-app.now.sh'', ''all'', ''sfo''])))
   \<and> getDCsFromArgs listing_remote (positional (options [''scale'', ''my-app.now.sh'', ''all'', ''sfo'']))
       = Inl InvalidAllForScale
   \<and> main_core listing_remote api_client ''me'' (options [''scale'', ''my-app.now.sh'', ''all'', ''sfo''])
       = (Exit 1, [ErrorOut AllWithOthers, Closed])"
proof -
  have resolver: "getDCsFromArgs listing_remote = spec_getDCsFromArgs (\<lambda>_. True) (drop 2)"
    by (simp add: listing_remote_def remote_def)
  have everything: "''all'' \<in> set (drop 2 (positional (options [''scale'', ''my-app.now.sh'', ''all'', ''sfo''])))"
    and another: "''sfo'' \<in> set (drop 2 (positional (options [''scale'', ''my-app.now.sh'', ''all'', ''sfo''])))"
    and differs: "''sfo'' \<noteq> ''all''"
    by (simp_all add: options_def)
  have counted: "at (positional (options [''scale'', ''my-app.now.sh'', ''all'', ''sfo''])) 1 \<noteq> Some ''ls''
      \<and> 3 \<le> length (positional (options [''scale'', ''my-app.now.sh'', ''all'', ''sfo'']))
      \<and> length (positional (options [''scale'', ''my-app.now.sh'', ''all'', ''sfo''])) \<le> 5"
    by (simp add: options_def at_def)
  from all_with_another_target_is_refused
    [OF resolver everything another differs, of api_client "''me''"] counted everything another
  show ?thesis by blast
qed

end
